theory Spec2Isabelle
  imports Main
begin

section \<open>Data model\<close>

text \<open>
  The proxy of \<^verbatim>\<open>index.ts\<close> and \<^verbatim>\<open>complexityCheck.ts\<close> routes a chat request to
  a fast or a slow model. A JavaScript string is modelled as a \<^typ>\<open>string\<close>, one
  \<^typ>\<open>char\<close> per code unit, so the model covers the texts whose code units are below 256
  (Latin-1); \<^verbatim>\<open>length\<close> counts code units, as \<^verbatim>\<open>String.prototype.length\<close> does.
\<close>

datatype role = User | Assistant | System | Function | Tool

text \<open>
  \<^verbatim>\<open>type ContentPart = TextContent | ImageContent | AudioContent\<close>: a text part carries
  its \<^verbatim>\<open>text\<close>, the other two the \<^verbatim>\<open>url\<close> of their resource.
\<close>

datatype ContentPart = TextContent string | ImageContent string | AudioContent string

fun part_type :: "ContentPart \<Rightarrow> string" where
  "part_type (TextContent t) = ''text''"
| "part_type (ImageContent u) = ''image_url''"
| "part_type (AudioContent u) = ''audio''"

text \<open>\<^verbatim>\<open>part.text\<close>: \<^verbatim>\<open>undefined\<close> (here \<^term>\<open>None\<close>) on a part that has no such field.\<close>

fun part_text :: "ContentPart \<Rightarrow> string option" where
  "part_text (TextContent t) = Some t"
| "part_text (ImageContent u) = None"
| "part_text (AudioContent u) = None"

text \<open>\<^verbatim>\<open>content: string | ContentPart[]\<close>\<close>

datatype content = Str string | Parts "ContentPart list"

text \<open>
  A message as \<^verbatim>\<open>ChatMessageSchema\<close> admits it; the payloads of \<^verbatim>\<open>function_call\<close> and
  \<^verbatim>\<open>tool_calls\<close> are opaque (\<^verbatim>\<open>z.any()\<close>) and kept as their JSON text. An absent
  optional field is \<^term>\<open>None\<close>; the field \<^verbatim>\<open>name\<close> of a message is \<open>msg_name\<close>.
\<close>

record ChatMessage =
  role :: role
  content :: content
  msg_name :: "string option"
  function_call :: "string option"
  tool_calls :: "string option"

section \<open>Content extractor\<close>

text \<open>
  \<^verbatim>\<open>Array.prototype.join(sep)\<close> as ECMAScript defines it: a loop over the indices \<open>k\<close> with
  the result \<open>R\<close> so far; the separator is appended before every element but the first, and
  an \<^verbatim>\<open>undefined\<close> element contributes the empty string.
\<close>

fun join_loop :: "string \<Rightarrow> string option list \<Rightarrow> nat \<Rightarrow> string \<Rightarrow> string" where
  "join_loop sep [] k R = R"
| "join_loop sep (element # rest) k R =
     join_loop sep rest (k + 1)
       ((if k > 0 then R @ sep else R) @ (case element of None \<Rightarrow> [] | Some s \<Rightarrow> s))"

definition join :: "string \<Rightarrow> string option list \<Rightarrow> string" where
  "join sep xs = join_loop sep xs 0 []"

text \<open>
  \<^verbatim>\<open>
  export function extractTextFromContent(content: string | ContentPart[]): string {
    if (typeof content === "string") return content;
    return content
      .filter((part) => part.type === "text")
      .map((part: any) => part.text)
      .join(" ");
  }
  \<close>
\<close>

fun extractTextFromContent :: "content \<Rightarrow> string" where
  "extractTextFromContent (Str s) = s"
| "extractTextFromContent (Parts ps) =
     join '' '' (map part_text (filter (\<lambda>part. part_type part = ''text'') ps))"

section \<open>Strings\<close>

text \<open>\<^verbatim>\<open>String.prototype.startsWith\<close> and \<^verbatim>\<open>String.prototype.includes\<close> (here \<open>str_includes\<close>).\<close>

definition startsWith :: "string \<Rightarrow> string \<Rightarrow> bool" where
  "startsWith s searchString = (take (length searchString) s = searchString)"

fun str_includes :: "string \<Rightarrow> string \<Rightarrow> bool" where
  "str_includes [] searchString = (searchString = [])"
| "str_includes (c # cs) searchString =
     (startsWith (c # cs) searchString \<or> str_includes cs searchString)"

text \<open>
  \<^verbatim>\<open>String.prototype.toLowerCase\<close> on Latin-1 code units: the letters \<open>A\<close> to \<open>Z\<close> (65 to 90)
  and the accented capitals 192 to 222, the multiplication sign 215 apart, move up by 32;
  every other code unit stays.
\<close>

definition toLowerCaseChar :: "char \<Rightarrow> char" where
  "toLowerCaseChar c =
     (let n = (of_char c :: nat) in
      if (65 \<le> n \<and> n \<le> 90) \<or> (192 \<le> n \<and> n \<le> 222 \<and> n \<noteq> 215)
      then char_of (n + 32) else c)"

definition toLowerCase :: "string \<Rightarrow> string" where
  "toLowerCase s = map toLowerCaseChar s"

section \<open>Thrown values, backend streams, effects\<close>

text \<open>
  What a \<^verbatim>\<open>throw\<close> carries: an \<^verbatim>\<open>Error\<close> object with its class, its \<^verbatim>\<open>name\<close> and its
  \<^verbatim>\<open>message\<close>, or a value that is no \<^verbatim>\<open>Error\<close>. A \<^verbatim>\<open>ZodError\<close> carries its issues, each a
  path and a message.
\<close>

datatype error_class =
  PlainError | ZodError "(string list \<times> string) list" | SyntaxError | OtherError

datatype thrown = ErrorObject error_class string string | NotAnError

text \<open>
  The \<^verbatim>\<open>AsyncIterable\<close> a backend client returns is a finite sequence of items that then
  ends or raises. Leaving a \<^verbatim>\<open>for await\<close> loop early (by \<^verbatim>\<open>return\<close>, by \<^verbatim>\<open>break\<close>, or by a
  \<^verbatim>\<open>throw\<close> of the loop body) calls the iterator's \<^verbatim>\<open>return()\<close>: the consumer closes the
  stream and so releases the backend connection behind it.
\<close>

datatype stream_end = Done | Raises thrown

text \<open>
  The parameters of the probe's \<^verbatim>\<open>client.chat.completions.create\<close>: \<^verbatim>\<open>model\<close>,
  \<^verbatim>\<open>messages\<close>, \<^verbatim>\<open>stream\<close>, \<^verbatim>\<open>max_tokens\<close>.
\<close>

record ProbeParams =
  p_model :: string
  p_messages :: "ChatMessage list"
  p_stream :: bool
  p_max_tokens :: nat

text \<open>
  A value of unknown JavaScript type, for the field the code tests with \<^verbatim>\<open>typeof\<close>.
\<close>

datatype js_value = JString string | JNumber int | JBoolean bool | JNull

fun truthy :: "js_value \<Rightarrow> bool" where
  "truthy (JString s) = (s \<noteq> [])"
| "truthy (JNumber n) = (n \<noteq> 0)"
| "truthy (JBoolean b) = b"
| "truthy JNull = False"

fun typeof :: "js_value \<Rightarrow> string" where
  "typeof (JString s) = ''string''"
| "typeof (JNumber n) = ''number''"
| "typeof (JBoolean b) = ''boolean''"
| "typeof JNull = ''object''"

text \<open>
  \<^verbatim>\<open>interface ModelConfig { name: string; apiKey?: string; apiUrl?: string }\<close>; the request
  gives a model as \<^verbatim>\<open>string | ModelConfig\<close>.
\<close>

record ModelConfig =
  name :: string
  apiKey :: "js_value option"
  apiUrl :: "string option"

datatype modelParam = ModelName string | ModelObject ModelConfig

text \<open>
  The request body as \<^verbatim>\<open>c.req.json()\<close> reads it, before \<^verbatim>\<open>RequestSchema\<close> has checked it:
  its selectors may still be ones the schema refuses. \<open>passthrough\<close> holds the other
  parameters (\<^verbatim>\<open>temperature\<close>, \<^verbatim>\<open>max_tokens\<close>), which the proxy hands on unread and whose
  own checks are taken as passed.
\<close>

record RequestBody =
  messages :: "ChatMessage list"
  fastModel :: "modelParam option"
  slowModel :: "modelParam option"
  stream :: "bool option"
  passthrough :: "(string \<times> string) list"

text \<open>
  The relay's call of \<^verbatim>\<open>client.chat.completions.create\<close>: the client is built from the
  resolved configuration and the \<^verbatim>\<open>Authorization\<close> header, the parameters are the model's
  name and the body without \<^verbatim>\<open>fastModel\<close> and \<^verbatim>\<open>slowModel\<close>.
\<close>

record RelayParams =
  r_config :: ModelConfig
  r_authorization :: "string option"
  r_messages :: "ChatMessage list"
  r_stream :: "bool option"
  r_passthrough :: "(string \<times> string) list"

text \<open>
  What the handler does to the world, in order: requests to the probe and relay backends,
  closing their streams, and the operations on the caller-facing stream's controller that
  take effect.
\<close>

datatype effect =
    ProbeCreate ProbeParams
  | ProbeReturn
  | RelayCreate RelayParams
  | RelayReturn
  | RelayAbort
  | Enqueue string
  | ControllerError thrown
  | ControllerClose

section \<open>Classifier\<close>

text \<open>The classifier's result, \<^verbatim>\<open>{ useSlowModel: boolean; reason: string }\<close>.\<close>

record classification =
  useSlowModel :: bool
  reason :: string

definition COMPLEXITY_CHECK_PROMPT :: ChatMessage where
  "COMPLEXITY_CHECK_PROMPT =
     \<lparr>role = System,
      content = Str (''If the user's query requires analysis, reasoning, mathematics, knowledge, explanations, or problem solving, start your response with '==' and then continue normally. '' @
        ''For simple queries like greetings, basic facts, or straightforward questions, respond normally without any prefix.''),
      msg_name = None, function_call = None, tool_calls = None\<rparr>"

text \<open>
  \<^verbatim>\<open>Array.prototype.splice(start, 0, item)\<close>: a negative \<open>start\<close> counts from the end and is
  clamped at 0, a \<open>start\<close> beyond the end is clamped to the length.
\<close>

definition splice_insert :: "int \<Rightarrow> 'a \<Rightarrow> 'a list \<Rightarrow> 'a list" where
  "splice_insert start item xs =
     (let len = int (length xs);
          actualStart = (if start < 0 then max (len + start) 0 else min start len)
      in take (nat actualStart) xs @ item # drop (nat actualStart) xs)"

text \<open>
  \<^verbatim>\<open>
  const messagesWithCheck = messages.map((msg) => ({ role: msg.role, content: msg.content }));
  messagesWithCheck.splice(messagesWithCheck.length - 1, 0, COMPLEXITY_CHECK_PROMPT);
  \<close>
\<close>

definition role_and_content :: "ChatMessage \<Rightarrow> ChatMessage" where
  "role_and_content msg =
     \<lparr>role = role msg, content = content msg,
      msg_name = None, function_call = None, tool_calls = None\<rparr>"

definition messagesWithCheck :: "ChatMessage list \<Rightarrow> ChatMessage list" where
  "messagesWithCheck msgs =
     (let copies = map role_and_content msgs
      in splice_insert (int (length copies) - 1) COMPLEXITY_CHECK_PROMPT copies)"

definition probe_params :: "ChatMessage list \<Rightarrow> ProbeParams" where
  "probe_params msgs =
     \<lparr>p_model = ''gpt-4o'', p_messages = messagesWithCheck msgs,
      p_stream = True, p_max_tokens = 10\<rparr>"

text \<open>
  The loop over the probe's stream; a chunk is its \<^verbatim>\<open>chunk.choices?.[0]?.delta?.content\<close>,
  \<^term>\<open>None\<close> when that is \<^verbatim>\<open>undefined\<close> or \<^verbatim>\<open>null\<close>.
  \<^verbatim>\<open>
  for await (const chunk of stream) {
    const contentPiece = chunk.choices?.[0]?.delta?.content;
    if (contentPiece) {
      foundContent = true;
      if (contentPiece.startsWith("==")) {
        return { useSlowModel: true, reason: "model-detected" };
      }
      break;
    }
  }
  \<close>
\<close>

datatype probe_exit = Return classification | Break | Exhausted | Throw thrown

fun probe_loop :: "string option list \<Rightarrow> stream_end \<Rightarrow> probe_exit" where
  "probe_loop [] Done = Exhausted"
| "probe_loop [] (Raises e) = Throw e"
| "probe_loop (chunk # rest) fin =
     (case chunk of
        None \<Rightarrow> probe_loop rest fin
      | Some contentPiece \<Rightarrow>
          if contentPiece \<noteq> [] then
            (if startsWith contentPiece ''==''
             then Return \<lparr>useSlowModel = True, reason = ''model-detected''\<rparr>
             else Break)
          else probe_loop rest fin)"

type_synonym probe_client = "ProbeParams \<Rightarrow> thrown + (string option list \<times> stream_end)"

text \<open>The body of the \<^verbatim>\<open>try\<close> block of \<^verbatim>\<open>shouldUseSlowModel\<close>: its result or what it throws.\<close>

definition probe_try :: "probe_client \<Rightarrow> ChatMessage list \<Rightarrow> (thrown + classification) \<times> effect list" where
  "probe_try client msgs =
     (let params = probe_params msgs in
      case client params of
        Inl e \<Rightarrow> (Inl e, [ProbeCreate params])
      | Inr (chunks, fin) \<Rightarrow>
          (case probe_loop chunks fin of
             Return r \<Rightarrow> (Inr r, [ProbeCreate params, ProbeReturn])
           | Break \<Rightarrow>
               (Inr \<lparr>useSlowModel = False, reason = ''model-simple''\<rparr>,
                [ProbeCreate params, ProbeReturn])
           | Exhausted \<Rightarrow>
               (Inr \<lparr>useSlowModel = False, reason = ''model-simple''\<rparr>, [ProbeCreate params])
           | Throw e \<Rightarrow> (Inl e, [ProbeCreate params])))"

text \<open>The \<^verbatim>\<open>try\<close> with its \<^verbatim>\<open>catch\<close>: \<^verbatim>\<open>return { useSlowModel: false, reason: "check-failed" }\<close>.\<close>

definition probe :: "probe_client \<Rightarrow> ChatMessage list \<Rightarrow> classification \<times> effect list" where
  "probe client msgs =
     (case probe_try client msgs of
        (Inl error, fx) \<Rightarrow> (\<lparr>useSlowModel = False, reason = ''check-failed''\<rparr>, fx)
      | (Inr r, fx) \<Rightarrow> (r, fx))"

definition keywords_list :: "string list" where
  "keywords_list = [''legal'', ''medical'', ''analysis'', ''philosophy'']"

text \<open>
  \<^verbatim>\<open>
  const textContent = extractTextFromContent(content);
  if (textContent.length > 1000) return { useSlowModel: true, reason: "length" };
  const keywords = ["legal", "medical", "analysis", "philosophy"];
  if (keywords.some((keyword) => textContent.toLowerCase().includes(keyword)))
    return { useSlowModel: true, reason: "keywords" };
  try { ... } catch (error) { return { useSlowModel: false, reason: "check-failed" }; }
  \<close>
  The result comes with the effects on the probe backend; the parameters \<^verbatim>\<open>content\<close> and
  \<^verbatim>\<open>messages\<close> are \<open>prompt\<close> and \<open>msgs\<close> here.
\<close>

definition shouldUseSlowModel ::
  "content \<Rightarrow> probe_client \<Rightarrow> ChatMessage list \<Rightarrow> classification \<times> effect list" where
  "shouldUseSlowModel prompt client msgs =
     (let textContent = extractTextFromContent prompt in
      if length textContent > 1000 then (\<lparr>useSlowModel = True, reason = ''length''\<rparr>, [])
      else if list_ex (\<lambda>keyword. str_includes (toLowerCase textContent) keyword) keywords_list
      then (\<lparr>useSlowModel = True, reason = ''keywords''\<rparr>, [])
      else probe client msgs)"

section \<open>Model resolver\<close>

text \<open>\<^verbatim>\<open>interface ValidationError { message: string; field?: string }\<close>\<close>

record ValidationError =
  message :: string
  field :: "string option"

text \<open>
  \<^verbatim>\<open>
  const validateModelConfig = (config: ModelConfig): ValidationError | null => {
    if (!config.name) return { message: "Model name is required", field: "name" };
    if (config.apiKey && typeof config.apiKey !== "string")
      return { message: "API key must be a string", field: "apiKey" };
    if (config.apiUrl) {
      try { new URL(config.apiUrl); }
      catch { return { message: "Invalid API URL", field: "apiUrl" }; }
    }
    return null;
  };
  \<close>
  The platform's \<^verbatim>\<open>URL\<close> constructor is the parameter \<open>url_parses\<close>: whether
  \<^verbatim>\<open>new URL(s)\<close> returns.
\<close>

definition validateModelConfig :: "(string \<Rightarrow> bool) \<Rightarrow> ModelConfig \<Rightarrow> ValidationError option" where
  "validateModelConfig url_parses config =
     (if name config = [] then
        Some \<lparr>message = ''Model name is required'', field = Some ''name''\<rparr>
      else if (case apiKey config of None \<Rightarrow> False
               | Some k \<Rightarrow> truthy k \<and> typeof k \<noteq> ''string'') then
        Some \<lparr>message = ''API key must be a string'', field = Some ''apiKey''\<rparr>
      else if (case apiUrl config of None \<Rightarrow> False
               | Some u \<Rightarrow> u \<noteq> [] \<and> \<not> url_parses u) then
        Some \<lparr>message = ''Invalid API URL'', field = Some ''apiUrl''\<rparr>
      else None)"

text \<open>
  The configuration \<^verbatim>\<open>getModelConfig\<close> assigns to \<^verbatim>\<open>config\<close>; \<^verbatim>\<open>!modelParam\<close> holds of
  \<^verbatim>\<open>undefined\<close> and of the empty string.
  \<^verbatim>\<open>
  if (!modelParam) {
    config = { name: defaultModel };
  } else {
    config = typeof modelParam === "string" ? { name: modelParam } : modelParam;
  }
  \<close>
\<close>

definition selectConfig :: "modelParam option \<Rightarrow> string \<Rightarrow> ModelConfig" where
  "selectConfig modelParam defaultModel =
     (case modelParam of
        None \<Rightarrow> \<lparr>name = defaultModel, apiKey = None, apiUrl = None\<rparr>
      | Some (ModelName s) \<Rightarrow>
          if s = [] then \<lparr>name = defaultModel, apiKey = None, apiUrl = None\<rparr>
          else \<lparr>name = s, apiKey = None, apiUrl = None\<rparr>
      | Some (ModelObject c) \<Rightarrow> c)"

text \<open>
  \<^verbatim>\<open>
  const error = validateModelConfig(config);
  if (error) {
    throw new Error(`Invalid model configuration: ${error.message}${
      error.field ? ` (${error.field})` : ""}`);
  }
  return config;
  \<close>
\<close>

definition getModelConfig :: "(string \<Rightarrow> bool) \<Rightarrow> modelParam option \<Rightarrow> string \<Rightarrow> thrown + ModelConfig" where
  "getModelConfig url_parses modelParam defaultModel =
     (let config = selectConfig modelParam defaultModel in
      case validateModelConfig url_parses config of
        Some error \<Rightarrow>
          Inl (ErrorObject PlainError ''Error''
                (''Invalid model configuration: '' @ message error @
                 (case field error of
                    None \<Rightarrow> []
                  | Some f \<Rightarrow> if f \<noteq> [] then '' ('' @ f @ '')'' else [])))
      | None \<Rightarrow> Inr config)"

section \<open>Relay engine\<close>

text \<open>
  The caller's side as the relay sees it when an item of the backend stream arrives:
  \<open>aborted\<close> is \<^verbatim>\<open>c.req.raw.signal.aborted\<close>; \<open>cancelled\<close> says that the consumer has
  cancelled the caller-facing \<^verbatim>\<open>ReadableStream\<close>, after which \<^verbatim>\<open>controller.enqueue\<close> and
  \<^verbatim>\<open>controller.close\<close> throw a \<^verbatim>\<open>TypeError\<close> and \<^verbatim>\<open>controller.error\<close> does nothing.
\<close>

record caller =
  aborted :: bool
  cancelled :: bool

text \<open>The frame of a chunk, \<^verbatim>\<open>`data: ${JSON.stringify(chunk)}\n\n`\<close>; a chunk is its JSON text.\<close>

definition sse_frame :: "string \<Rightarrow> string" where
  "sse_frame chunk = ''data: '' @ chunk @ [CHR 0x0A, CHR 0x0A]"

text \<open>
  The loop of \<^verbatim>\<open>start(controller)\<close>, with how it is left:
  \<^verbatim>\<open>
  for await (const chunk of stream) {
    if (c.req.raw.signal.aborted) { return; }
    controller.enqueue(`data: ${JSON.stringify(chunk)}\n\n`);
  }
  \<close>
\<close>

datatype relay_exit = Returned caller | Completed caller | Threw thrown caller

definition enqueue_TypeError :: thrown where
  "enqueue_TypeError = ErrorObject OtherError ''TypeError'' ''Invalid state: Controller is already closed''"

fun relay_loop :: "(string \<times> caller) list \<Rightarrow> stream_end \<times> caller \<Rightarrow> effect list \<times> relay_exit" where
  "relay_loop [] (Done, s) = ([], Completed s)"
| "relay_loop [] (Raises e, s) = ([], Threw e s)"
| "relay_loop ((chunk, s) # rest) fin =
     (if aborted s then ([RelayReturn], Returned s)
      else if cancelled s then ([RelayReturn], Threw enqueue_TypeError s)
      else (case relay_loop rest fin of (fx, exit) \<Rightarrow> (Enqueue (sse_frame chunk) # fx, exit)))"

text \<open>
  The \<^verbatim>\<open>catch\<close> and the \<^verbatim>\<open>finally\<close> of \<^verbatim>\<open>start(controller)\<close>. \<open>errored\<close> says that
  \<^verbatim>\<open>controller.error\<close> took effect before.
  \<^verbatim>\<open>
  } catch (error) {
    if (!c.req.raw.signal.aborted) {
      try { controller.error(error); } catch (e) { ... }
    }
  } finally {
    try {
      if (!c.req.raw.signal.aborted) { controller.close(); }
    } catch (e) { ... }
  }
  \<close>
\<close>

definition start_catch :: "thrown \<Rightarrow> caller \<Rightarrow> effect list" where
  "start_catch error s =
     (if \<not> aborted s then (if \<not> cancelled s then [ControllerError error] else []) else [])"

definition start_finally :: "caller \<Rightarrow> bool \<Rightarrow> effect list" where
  "start_finally s errored =
     (if \<not> aborted s then (if \<not> cancelled s \<and> \<not> errored then [ControllerClose] else []) else [])"

definition start :: "(string \<times> caller) list \<Rightarrow> stream_end \<times> caller \<Rightarrow> effect list" where
  "start items fin =
     (case relay_loop items fin of
        (fx, Returned s) \<Rightarrow> fx @ start_finally s False
      | (fx, Completed s) \<Rightarrow> fx @ start_finally s False
      | (fx, Threw error s) \<Rightarrow>
          fx @ start_catch error s @ start_finally s (start_catch error s \<noteq> []))"

section \<open>Request handler\<close>

datatype json_body =
  ErrorBody string | ValidationBody "(string \<times> string) list" | CompletionBody string

datatype response = Json nat json_body | Empty nat | EventStream

text \<open>
  The backends, the libraries and the platform, as the handler reaches them: the \<^verbatim>\<open>URL\<close>
  constructor; \<^verbatim>\<open>process.env.OPENAI_API_KEY\<close>; the issues a \<^verbatim>\<open>ZodError\<close> reports for a body
  the schema refuses; the constructor \<^verbatim>\<open>new OpenAI({ apiKey, baseURL })\<close>, which gives what it
  throws, if it throws; the probe's client (built from the \<^verbatim>\<open>Authorization\<close> header), and the
  relay's client for a streaming and for a single completion. A relay stream gives each item
  with the caller's side at its arrival.
\<close>

record env =
  url_parses :: "string \<Rightarrow> bool"
  OPENAI_API_KEY :: "string option"
  zod_issues :: "RequestBody \<Rightarrow> (string list \<times> string) list"
  new_OpenAI :: "js_value option \<Rightarrow> string \<Rightarrow> thrown option"
  probe_backend :: "string option \<Rightarrow> probe_client"
  relay_stream :: "RelayParams \<Rightarrow> thrown + ((string \<times> caller) list \<times> (stream_end \<times> caller))"
  relay_completion :: "RelayParams \<Rightarrow> thrown + string"

text \<open>
  The checks of \<^verbatim>\<open>RequestSchema\<close> on a body: \<^verbatim>\<open>messages\<close> has at least one message; the
  \<^verbatim>\<open>url\<close> of an image or audio part is a URL (\<^verbatim>\<open>z.string().url()\<close>, which calls the
  \<^verbatim>\<open>URL\<close> constructor); a selector is a string or passes \<^verbatim>\<open>ModelConfigSchema\<close>,
  \<^verbatim>\<open>
  const ModelConfigSchema = z.object({
    name: z.string().min(1, "Model name is required"),
    apiKey: z.string().optional(),
    apiUrl: z.string().url("Invalid API URL").optional(),
  });
  \<close>
  and the refinement
  \<^verbatim>\<open>(data) => data.fastModel || data.slowModel || process.env.OPENAI_API_KEY\<close> holds.
\<close>

fun ContentPartSchema :: "(string \<Rightarrow> bool) \<Rightarrow> ContentPart \<Rightarrow> bool" where
  "ContentPartSchema url_ok (TextContent t) = True"
| "ContentPartSchema url_ok (ImageContent u) = url_ok u"
| "ContentPartSchema url_ok (AudioContent u) = url_ok u"

definition ChatMessageSchema :: "(string \<Rightarrow> bool) \<Rightarrow> ChatMessage \<Rightarrow> bool" where
  "ChatMessageSchema url_ok msg =
     (case content msg of Str s \<Rightarrow> True | Parts ps \<Rightarrow> list_all (ContentPartSchema url_ok) ps)"

definition ModelConfigSchema :: "(string \<Rightarrow> bool) \<Rightarrow> ModelConfig \<Rightarrow> bool" where
  "ModelConfigSchema url_ok config =
     (name config \<noteq> [] \<and>
      (case apiKey config of None \<Rightarrow> True | Some k \<Rightarrow> typeof k = ''string'') \<and>
      (case apiUrl config of None \<Rightarrow> True | Some u \<Rightarrow> url_ok u))"

fun modelParamSchema :: "(string \<Rightarrow> bool) \<Rightarrow> modelParam option \<Rightarrow> bool" where
  "modelParamSchema url_ok None = True"
| "modelParamSchema url_ok (Some (ModelName s)) = True"
| "modelParamSchema url_ok (Some (ModelObject c)) = ModelConfigSchema url_ok c"

fun modelParam_truthy :: "modelParam option \<Rightarrow> bool" where
  "modelParam_truthy None = False"
| "modelParam_truthy (Some (ModelName s)) = (s \<noteq> [])"
| "modelParam_truthy (Some (ModelObject c)) = True"

definition RequestSchema :: "env \<Rightarrow> RequestBody \<Rightarrow> bool" where
  "RequestSchema E body =
     (messages body \<noteq> [] \<and>
      list_all (ChatMessageSchema (url_parses E)) (messages body) \<and>
      modelParamSchema (url_parses E) (fastModel body) \<and>
      modelParamSchema (url_parses E) (slowModel body) \<and>
      (modelParam_truthy (fastModel body) \<or> modelParam_truthy (slowModel body) \<or>
       (case OPENAI_API_KEY E of None \<Rightarrow> False | Some k \<Rightarrow> k \<noteq> [])))"

text \<open>
  \<^verbatim>\<open>RequestSchema.parseAsync(rawBody)\<close>: the body, or a thrown \<^verbatim>\<open>ZodError\<close> with the issues
  the library reports; the handler reads the issues of a \<^verbatim>\<open>ZodError\<close> only.
\<close>

definition RequestSchema_parseAsync :: "env \<Rightarrow> RequestBody \<Rightarrow> thrown + RequestBody" where
  "RequestSchema_parseAsync E rawBody =
     (if RequestSchema E rawBody then Inr rawBody
      else Inl (ErrorObject (ZodError (zod_issues E rawBody)) ''ZodError'' []))"

text \<open>
  The credentials of the two clients. \<^verbatim>\<open>a || b\<close> is \<open>a\<close> when \<open>a\<close> is truthy and \<open>b\<close>
  otherwise; \<^verbatim>\<open>String.prototype.split(" ")\<close> cuts at every space, and \<^verbatim>\<open>[1]\<close> of its result
  is \<^verbatim>\<open>undefined\<close> when there is no second piece.
  \<^verbatim>\<open>
  complexityCheckClient = new OpenAI({
    apiKey: authHeader?.split(" ")[1] || process.env.OPENAI_API_KEY,
    baseURL: "https://api.openai.com/v1",
  });
  const client = new OpenAI({
    apiKey: modelConfig.apiKey || authHeader?.split(" ")[1] || process.env.OPENAI_API_KEY,
    baseURL: modelConfig.apiUrl || "https://api.openai.com/v1",
  });
  \<close>
\<close>

fun split_str :: "char \<Rightarrow> string \<Rightarrow> string list" where
  "split_str sep [] = [[]]"
| "split_str sep (c # cs) =
     (if c = sep then [] # split_str sep cs
      else (case split_str sep cs of [] \<Rightarrow> [[c]] | piece # pieces \<Rightarrow> (c # piece) # pieces))"

definition js_or :: "js_value option \<Rightarrow> js_value option \<Rightarrow> js_value option" where
  "js_or a b = (case a of None \<Rightarrow> b | Some v \<Rightarrow> if truthy v then a else b)"

definition bearer :: "string option \<Rightarrow> js_value option" where
  "bearer authHeader =
     (case authHeader of
        None \<Rightarrow> None
      | Some h \<Rightarrow>
          (case split_str (CHR '' '') h of
             first # second # pieces \<Rightarrow> Some (JString second)
           | _ \<Rightarrow> None))"

definition probe_apiKey :: "env \<Rightarrow> string option \<Rightarrow> js_value option" where
  "probe_apiKey E authHeader = js_or (bearer authHeader) (map_option JString (OPENAI_API_KEY E))"

definition relay_apiKey :: "env \<Rightarrow> string option \<Rightarrow> ModelConfig \<Rightarrow> js_value option" where
  "relay_apiKey E authHeader modelConfig =
     js_or (js_or (apiKey modelConfig) (bearer authHeader)) (map_option JString (OPENAI_API_KEY E))"

definition relay_baseURL :: "ModelConfig \<Rightarrow> string" where
  "relay_baseURL modelConfig =
     (case apiUrl modelConfig of
        None \<Rightarrow> ''https://api.openai.com/v1''
      | Some u \<Rightarrow> if u \<noteq> [] then u else ''https://api.openai.com/v1'')"

text \<open>
  \<^verbatim>\<open>Array.prototype.findLast\<close>, and
  \<^verbatim>\<open>
  const lastUserMessage = body.messages.findLast((m) => m.role === "user");
  const prompt = lastUserMessage?.content ?? "";
  \<close>
\<close>

definition findLast :: "('a \<Rightarrow> bool) \<Rightarrow> 'a list \<Rightarrow> 'a option" where
  "findLast P xs = find P (rev xs)"

definition lastUserPrompt :: "ChatMessage list \<Rightarrow> content" where
  "lastUserPrompt msgs =
     (case findLast (\<lambda>m. role m = User) msgs of
        None \<Rightarrow> Str []
      | Some lastUserMessage \<Rightarrow> content lastUserMessage)"

definition classify :: "env \<Rightarrow> string option \<Rightarrow> RequestBody \<Rightarrow> classification \<times> effect list" where
  "classify E authHeader body =
     shouldUseSlowModel (lastUserPrompt (messages body)) (probe_backend E authHeader) (messages body)"

text \<open>
  \<^verbatim>\<open>
  const modelConfig = useSlowModel
    ? getModelConfig(body.slowModel, "gpt-4o-mini")
    : getModelConfig(body.fastModel, "gpt-4o");
  \<close>
\<close>

definition resolve :: "env \<Rightarrow> RequestBody \<Rightarrow> classification \<Rightarrow> thrown + ModelConfig" where
  "resolve E body cls =
     (if useSlowModel cls then getModelConfig (url_parses E) (slowModel body) ''gpt-4o-mini''
      else getModelConfig (url_parses E) (fastModel body) ''gpt-4o'')"

definition relay_params :: "ModelConfig \<Rightarrow> string option \<Rightarrow> RequestBody \<Rightarrow> RelayParams" where
  "relay_params modelConfig authHeader body =
     \<lparr>r_config = modelConfig, r_authorization = authHeader, r_messages = messages body,
      r_stream = stream body, r_passthrough = passthrough body\<rparr>"

text \<open>
  The handler's \<^verbatim>\<open>try\<close> block from model resolution on: the resolution, the construction
  of the relay's client, and the relay. It gives what the block returns or throws, its
  effects before it returns, and the effects of the stream it has started, which run after
  the handler has returned its \<^verbatim>\<open>Response\<close>.
\<close>

definition relay_stage ::
  "env \<Rightarrow> string option \<Rightarrow> RequestBody \<Rightarrow> classification \<Rightarrow>
     (thrown + response) \<times> effect list \<times> effect list" where
  "relay_stage E authHeader body cls =
     (case resolve E body cls of
        Inl error \<Rightarrow> (Inl error, [], [])
      | Inr modelConfig \<Rightarrow>
          (case new_OpenAI E (relay_apiKey E authHeader modelConfig) (relay_baseURL modelConfig) of
             Some error \<Rightarrow> (Inl error, [], [])
           | None \<Rightarrow>
               (let params = relay_params modelConfig authHeader body in
                if stream body = Some True then
                  (case relay_stream E params of
                     Inl error \<Rightarrow> (Inl error, [RelayCreate params], [])
                   | Inr (items, fin) \<Rightarrow>
                       (Inr EventStream, [RelayCreate params], start items fin))
                else
                  (case relay_completion E params of
                     Inl error \<Rightarrow> (Inl error, [RelayCreate params], [])
                   | Inr completion \<Rightarrow>
                       (Inr (Json 200 (CompletionBody completion)), [RelayCreate params], [])))))"

text \<open>
  The handler's \<^verbatim>\<open>catch\<close>: the response for a thrown value.
  \<^verbatim>\<open>
  if (error instanceof Error && error.name === "AbortError") return new Response(null, { status: 499 });
  if (error instanceof z.ZodError) return c.json({ error: "Validation failed", details: ... }, 400);
  if (error instanceof SyntaxError) return c.json({ error: "Invalid JSON in request body" }, 400);
  if (error instanceof Error) {
    if (error.message.includes("401")) return c.json({ error: "Invalid API key" }, 401);
    if (error.message.includes("404")) return c.json({ error: "Model not found" }, 404);
    if (error.message.includes("429")) return c.json({ error: "Rate limit exceeded" }, 429);
  }
  return c.json({ error: "Model proxy failed" }, 500);
  \<close>
\<close>

fun error_response :: "thrown \<Rightarrow> response" where
  "error_response NotAnError = Json 500 (ErrorBody ''Model proxy failed'')"
| "error_response (ErrorObject cls nm msg) =
     (if nm = ''AbortError'' then Empty 499
      else case cls of
        ZodError issues \<Rightarrow>
          Json 400 (ValidationBody (map (\<lambda>(path, m). (join ''.'' (map Some path), m)) issues))
      | SyntaxError \<Rightarrow> Json 400 (ErrorBody ''Invalid JSON in request body'')
      | _ \<Rightarrow>
          if str_includes msg ''401'' then Json 401 (ErrorBody ''Invalid API key'')
          else if str_includes msg ''404'' then Json 404 (ErrorBody ''Model not found'')
          else if str_includes msg ''429'' then Json 429 (ErrorBody ''Rate limit exceeded'')
          else Json 500 (ErrorBody ''Model proxy failed''))"

text \<open>
  The handler's \<^verbatim>\<open>finally\<close>, on the variable \<^verbatim>\<open>activeStream\<close>:
  \<^verbatim>\<open>
  if (activeStream && "controller" in activeStream) {
    try { await (activeStream as any).controller.abort(); } catch (e) { ... }
  }
  \<close>
\<close>

definition cleanup :: "unit option \<Rightarrow> effect list" where
  "cleanup activeStream = (case activeStream of None \<Rightarrow> [] | Some h \<Rightarrow> [RelayAbort])"

text \<open>
  The handler of \<^verbatim>\<open>POST /v1/chat/completions\<close>, from the outcome of \<^verbatim>\<open>c.req.json()\<close> on:
  the body is validated, the probe's client is constructed, the request is classified, and
  \<open>relay_stage\<close> does the rest; a throw of any of these steps goes to the handler's
  \<^verbatim>\<open>catch\<close>. \<^verbatim>\<open>activeStream\<close> is declared \<^verbatim>\<open>null\<close> and never assigned, and the signal of
  \<^verbatim>\<open>abortController\<close> is handed to no call, so that aborting it reaches no backend.
  \<open>finish\<close> is the handler's \<^verbatim>\<open>catch\<close> and \<^verbatim>\<open>finally\<close> around an outcome of the \<^verbatim>\<open>try\<close>
  block: the response comes with all effects in order, those of the \<^verbatim>\<open>try\<close> block, those
  of the \<^verbatim>\<open>finally\<close>, then those of the started stream. Logging is left out.
  \<^verbatim>\<open>
  const rawBody = await c.req.json();
  const body = await RequestSchema.parseAsync(rawBody);
  const authHeader = c.req.header("Authorization");
  complexityCheckClient = new OpenAI({ ... });
  const { useSlowModel, reason } = await shouldUseSlowModel(prompt, complexityCheckClient, body.messages);
  \<close>
\<close>

definition finish ::
  "effect list \<Rightarrow> (thrown + response) \<times> effect list \<times> effect list \<Rightarrow> response \<times> effect list" where
  "finish fx1 outcome =
     (let activeStream = None in
      case outcome of
        (Inl error, fx2, fx3) \<Rightarrow> (error_response error, fx1 @ fx2 @ cleanup activeStream @ fx3)
      | (Inr resp, fx2, fx3) \<Rightarrow> (resp, fx1 @ fx2 @ cleanup activeStream @ fx3))"

definition post_chat_completions ::
  "env \<Rightarrow> string option \<Rightarrow> thrown + RequestBody \<Rightarrow> response \<times> effect list" where
  "post_chat_completions E authHeader read =
     (case read of
        Inl error \<Rightarrow> finish [] (Inl error, [], [])
      | Inr rawBody \<Rightarrow>
          (case RequestSchema_parseAsync E rawBody of
             Inl error \<Rightarrow> finish [] (Inl error, [], [])
           | Inr body \<Rightarrow>
               (case new_OpenAI E (probe_apiKey E authHeader) ''https://api.openai.com/v1'' of
                  Some error \<Rightarrow> finish [] (Inl error, [], [])
                | None \<Rightarrow>
                    (case classify E authHeader body of
                       (cls, fx1) \<Rightarrow> finish fx1 (relay_stage E authHeader body cls)))))"

section \<open>Notions of the specification\<close>

subsection \<open>The extractor as the specification words it\<close>

text \<open>The text fields of exactly the parts whose type is text, in their original order.\<close>

fun text_fields :: "ContentPart list \<Rightarrow> string list" where
  "text_fields [] = []"
| "text_fields (TextContent t # ps) = t # text_fields ps"
| "text_fields (ImageContent u # ps) = text_fields ps"
| "text_fields (AudioContent u # ps) = text_fields ps"

text \<open>Texts concatenated with a single space between consecutive ones.\<close>

fun spaced :: "string list \<Rightarrow> string" where
  "spaced [] = []"
| "spaced [t] = t"
| "spaced (t # u # ts) = t @ '' '' @ spaced (u # ts)"

subsection \<open>A term in any letter case\<close>

text \<open>
  A small letter is one of \<open>a\<close> to \<open>z\<close> (97 to 122); its capital lies 32 below. A word is a
  term in some letter case when it has the term's letters, each as it is or as its capital.
\<close>

definition small_letter :: "char \<Rightarrow> bool" where
  "small_letter d = (97 \<le> (of_char d :: nat) \<and> (of_char d :: nat) \<le> 122)"

definition toUpperCaseLetter :: "char \<Rightarrow> char" where
  "toUpperCaseLetter d =
     (let n = (of_char d :: nat) in if 97 \<le> n \<and> n \<le> 122 then char_of (n - 32) else d)"

definition in_any_letter_case :: "string \<Rightarrow> string \<Rightarrow> bool" where
  "in_any_letter_case w term = list_all2 (\<lambda>c d. c = d \<or> c = toUpperCaseLetter d) w term"

subsection \<open>Inconclusive heuristics, empty fragments, invalid configurations\<close>

text \<open>Neither the length rule nor the keyword rule of \<open>shouldUseSlowModel\<close> fires.\<close>

definition heuristics_silent :: "content \<Rightarrow> bool" where
  "heuristics_silent prompt =
     (length (extractTextFromContent prompt) \<le> 1000 \<and>
      \<not> list_ex (\<lambda>keyword. str_includes (toLowerCase (extractTextFromContent prompt)) keyword)
           keywords_list)"

text \<open>A chunk of the probe's stream that carries no non-empty text fragment.\<close>

definition empty_piece :: "string option \<Rightarrow> bool" where
  "empty_piece c = (c = None \<or> c = Some [])"

text \<open>
  A configuration with an empty name, with a credential that is truthy and no string, or
  with a non-empty endpoint that does not parse as a URL.
\<close>

definition invalid_config :: "(string \<Rightarrow> bool) \<Rightarrow> ModelConfig \<Rightarrow> bool" where
  "invalid_config url_ok config =
     (name config = [] \<or>
      (\<exists>k. apiKey config = Some k \<and> truthy k \<and> typeof k \<noteq> ''string'') \<or>
      (\<exists>u. apiUrl config = Some u \<and> u \<noteq> [] \<and> \<not> url_ok u))"

subsection \<open>Reading a trace of effects and a response\<close>

fun is_probe_effect :: "effect \<Rightarrow> bool" where
  "is_probe_effect (ProbeCreate p) = True"
| "is_probe_effect ProbeReturn = True"
| "is_probe_effect x = False"

text \<open>A request to the relay backend opens its connection.\<close>

fun opens_relay :: "effect \<Rightarrow> bool" where
  "opens_relay (RelayCreate p) = True"
| "opens_relay x = False"

text \<open>
  The relay's connection is released by closing its stream (\<open>RelayReturn\<close>) and by the
  handler's cleanup (\<open>RelayAbort\<close>); \<open>releases\<close> counts both.
\<close>

fun releases_relay :: "effect \<Rightarrow> bool" where
  "releases_relay RelayReturn = True"
| "releases_relay RelayAbort = True"
| "releases_relay x = False"

definition releases :: "effect list \<Rightarrow> nat" where
  "releases fx = length (filter releases_relay fx)"

text \<open>The frames forwarded to the caller, and the errors raised on the caller's stream.\<close>

fun forwarded :: "effect list \<Rightarrow> string list" where
  "forwarded [] = []"
| "forwarded (Enqueue d # fx) = d # forwarded fx"
| "forwarded (x # fx) = forwarded fx"

fun errors_surfaced :: "effect list \<Rightarrow> thrown list" where
  "errors_surfaced [] = []"
| "errors_surfaced (ControllerError e # fx) = e # errors_surfaced fx"
| "errors_surfaced (x # fx) = errors_surfaced fx"

text \<open>The caller is connected: its request is not aborted and it has not cancelled the stream.\<close>

definition connected :: "caller \<Rightarrow> bool" where
  "connected s = (\<not> aborted s \<and> \<not> cancelled s)"

subsection \<open>Example inputs\<close>

text \<open>
  An environment with a key of its own, whose client constructor throws when it is given
  no key, whose probe backend is unreachable, whose relay stream yields three chunks while
  the caller disconnects after the first, and whose single completion is \<open>{}\<close>.
\<close>

definition missing_key :: thrown where
  "missing_key =
     ErrorObject OtherError ''Error'' ''The OPENAI_API_KEY environment variable is missing or empty''"

definition example_env :: env where
  "example_env =
     \<lparr>url_parses = (\<lambda>u. u = ''https://api.example.com/v1''),
      OPENAI_API_KEY = Some ''sk-env'',
      zod_issues = (\<lambda>body. [([''slowModel'', ''name''], ''Model name is required'')]),
      new_OpenAI = (\<lambda>key baseURL. case key of None \<Rightarrow> Some missing_key | Some k \<Rightarrow> None),
      probe_backend = (\<lambda>authHeader params. Inl (ErrorObject OtherError ''Error'' ''Connection error.'')),
      relay_stream = (\<lambda>params.
        Inr ([(''{1}'', \<lparr>aborted = False, cancelled = False\<rparr>),
              (''{2}'', \<lparr>aborted = True, cancelled = False\<rparr>),
              (''{3}'', \<lparr>aborted = True, cancelled = False\<rparr>)],
             (Done, \<lparr>aborted = True, cancelled = False\<rparr>))),
      relay_completion = (\<lambda>params. Inr ''{}'')\<rparr>"

definition example_body :: "ChatMessage list \<Rightarrow> modelParam option \<Rightarrow> bool option \<Rightarrow> RequestBody" where
  "example_body msgs slow streaming =
     \<lparr>messages = msgs, fastModel = Some (ModelName ''m1''), slowModel = slow,
      stream = streaming, passthrough = []\<rparr>"

text \<open>
  The same environment without a key of its own, and a request that brings the fast model's
  key and endpoint along.
\<close>

definition keyless_env :: env where
  "keyless_env = example_env\<lparr>OPENAI_API_KEY := None\<rparr>"

definition own_key_body :: "ChatMessage list \<Rightarrow> RequestBody" where
  "own_key_body msgs =
     \<lparr>messages = msgs,
      fastModel = Some (ModelObject \<lparr>name = ''m1'', apiKey = Some (JString ''sk-own''),
                                     apiUrl = Some ''https://api.example.com/v1''\<rparr>),
      slowModel = None, stream = None, passthrough = []\<rparr>"

definition user_says :: "string \<Rightarrow> ChatMessage" where
  "user_says s =
     \<lparr>role = User, content = Str s, msg_name = None, function_call = None, tool_calls = None\<rparr>"

definition assistant_says :: "string \<Rightarrow> ChatMessage" where
  "assistant_says s =
     \<lparr>role = Assistant, content = Str s, msg_name = None, function_call = None, tool_calls = None\<rparr>"

definition example_message :: ChatMessage where
  "example_message =
     \<lparr>role = User, content = Str ''Hi'', msg_name = Some ''bob'',
      function_call = None, tool_calls = None\<rparr>"


definition marked_stream :: "string option list \<times> stream_end" where
  "marked_stream = ([None, Some [], Some ''==Sure'', Some ''more''], Raises NotAnError)"

definition silent_stream :: "string option list \<times> stream_end" where
  "silent_stream = ([None, Some []], Done)"

definition broken_stream :: "string option list \<times> stream_end" where
  "broken_stream = ([None, Some []], Raises (ErrorObject OtherError ''Error'' ''terminated''))"

section \<open>Lemmas\<close>

subsection \<open>Joining and extracting\<close>

lemma filter_map_text_fields:
  "map part_text (filter (\<lambda>part. part_type part = ''text'') ps) = map Some (text_fields ps)"
  by (induction ps rule: text_fields.induct) simp_all

lemma join_loop_Some:
  "join_loop sep (map Some (t # ts)) k R =
     (if k > 0 then R @ sep else R) @ t @ concat (map (\<lambda>u. sep @ u) ts)"
proof (induction ts arbitrary: t k R)
  case Nil
  show ?case by simp
next
  case (Cons u us)
  have "join_loop sep (map Some (t # u # us)) k R =
        join_loop sep (map Some (u # us)) (k + 1) ((if k > 0 then R @ sep else R) @ t)"
    by simp
  also have "\<dots> = ((if k > 0 then R @ sep else R) @ t) @ sep @ u @ concat (map (\<lambda>u. sep @ u) us)"
    using Cons.IH [of u "k + 1" "(if k > 0 then R @ sep else R) @ t"] by simp
  finally show ?case by simp
qed

lemma spaced_concat: "spaced (t # ts) = t @ concat (map (\<lambda>u. '' '' @ u) ts)"
  by (induction ts arbitrary: t) simp_all

lemma join_space_spaced: "join '' '' (map Some ts) = spaced ts"
proof (cases ts)
  case Nil
  then show ?thesis by (simp add: join_def)
next
  case (Cons t us)
  then show ?thesis
    unfolding join_def using join_loop_Some [of "'' ''" t us 0 "[]"] spaced_concat [of t us]
    by simp
qed

lemma text_fields_no_text: "text_fields (filter (\<lambda>part. part_type part \<noteq> ''text'') ps) = []"
  by (induction ps rule: text_fields.induct) simp_all

subsection \<open>Letter case and substrings\<close>

lemma toLowerCaseChar_small: "small_letter d \<Longrightarrow> toLowerCaseChar d = d"
  by (simp add: toLowerCaseChar_def small_letter_def Let_def)

lemma toLowerCaseChar_capital:
  assumes "small_letter d"
  shows "toLowerCaseChar (toUpperCaseLetter d) = d"
proof -
  define n where "n = (of_char d :: nat)"
  have n: "97 \<le> n" "n \<le> 122"
    using assms by (simp_all add: small_letter_def n_def)
  have up: "toUpperCaseLetter d = char_of (n - 32)"
    using n by (simp add: toUpperCaseLetter_def n_def [symmetric])
  have "(of_char (char_of (n - 32)) :: nat) = n - 32"
    using n by simp
  moreover have "65 \<le> n - 32" "n - 32 \<le> 90"
    using n by arith+
  ultimately have "toLowerCaseChar (char_of (n - 32)) = char_of (n - 32 + 32)"
    by (simp add: toLowerCaseChar_def Let_def)
  also have "\<dots> = char_of n"
    using n by simp
  also have "\<dots> = d"
    by (simp add: n_def)
  finally show ?thesis
    by (simp add: up)
qed

lemma char_eq_char_of: "(c = char_of (n::nat)) = (take_bit 8 n = (of_char c :: nat))"
  using char_of_eq_iff [of n c] by auto

lemma toLowerCase_any_case:
  "list_all2 (\<lambda>c d. c = d \<or> c = toUpperCaseLetter d) w k \<Longrightarrow> \<forall>d\<in>set k. small_letter d \<Longrightarrow>
   toLowerCase w = k"
  unfolding toLowerCase_def
  by (induction w k rule: list_all2_induct)
    (auto simp: toLowerCaseChar_small toLowerCaseChar_capital)

lemma keywords_small: "keyword \<in> set keywords_list \<Longrightarrow> \<forall>d\<in>set keyword. small_letter d"
  by (auto simp: keywords_list_def small_letter_def)

lemma str_includes_prefix: "str_includes (k @ post) k"
proof (cases "k @ post")
  case Nil
  then show ?thesis by simp
next
  case (Cons a list)
  have "startsWith (k @ post) k"
    by (simp add: startsWith_def)
  then show ?thesis
    by (simp add: Cons)
qed

lemma str_includes_append: "str_includes (pre @ k @ post) k"
  by (induction pre) (simp_all add: str_includes_prefix)

subsection \<open>The probe\<close>

lemma probe_loop_first:
  "list_all empty_piece pre \<Longrightarrow> fragment \<noteq> [] \<Longrightarrow>
   probe_loop (pre @ Some fragment # rest) fin =
     (if startsWith fragment ''==''
      then Return \<lparr>useSlowModel = True, reason = ''model-detected''\<rparr> else Break)"
  by (induction pre) (auto simp: empty_piece_def)

lemma probe_loop_empty:
  "list_all empty_piece chunks \<Longrightarrow>
   probe_loop chunks fin = (case fin of Done \<Rightarrow> Exhausted | Raises e \<Rightarrow> Throw e)"
  by (induction chunks) (auto simp: empty_piece_def split: stream_end.splits)

lemma shouldUseSlowModel_probe:
  "heuristics_silent prompt \<Longrightarrow> shouldUseSlowModel prompt client msgs = probe client msgs"
  by (simp add: heuristics_silent_def shouldUseSlowModel_def Let_def)

lemma probe_failure:
  assumes "client (probe_params msgs) = Inl e \<or>
           (\<exists>chunks. client (probe_params msgs) = Inr (chunks, Raises e) \<and> list_all empty_piece chunks)"
  shows "probe client msgs =
           (\<lparr>useSlowModel = False, reason = ''check-failed''\<rparr>, [ProbeCreate (probe_params msgs)])"
  using assms
proof
  assume "client (probe_params msgs) = Inl e"
  then show ?thesis by (simp add: probe_def probe_try_def)
next
  assume "\<exists>chunks. client (probe_params msgs) = Inr (chunks, Raises e) \<and> list_all empty_piece chunks"
  then obtain chunks where c: "client (probe_params msgs) = Inr (chunks, Raises e)"
      "list_all empty_piece chunks"
    by blast
  have "probe_loop chunks (Raises e) = Throw e"
    using probe_loop_empty [OF c(2), of "Raises e"] by simp
  then show ?thesis using c(1) by (simp add: probe_def probe_try_def)
qed

lemma heuristics_silent_empty: "heuristics_silent (Str [])"
  by (simp add: heuristics_silent_def keywords_list_def toLowerCase_def)

lemma heuristics_silent_Hi: "heuristics_silent (Str ''Hi'')"
  by (simp add: heuristics_silent_def keywords_list_def toLowerCase_def toLowerCaseChar_def
      startsWith_def)

lemma splice_insert_before_last:
  assumes "xs \<noteq> []"
  shows "splice_insert (int (length xs) - 1) item xs = butlast xs @ [item, last xs]"
proof -
  have n: "nat (int (length xs) - 1) = length xs - 1"
    by simp
  have "0 < length xs"
    using assms by simp
  then have "\<not> int (length xs) - 1 < 0"
      "min (int (length xs) - 1) (int (length xs)) = int (length xs) - 1"
    by simp_all
  then have "splice_insert (int (length xs) - 1) item xs =
      take (length xs - 1) xs @ item # drop (length xs - 1) xs"
    by (simp add: splice_insert_def Let_def n)
  moreover have "take (length xs - 1) xs = butlast xs"
    by (simp add: butlast_conv_take)
  moreover have "drop (length xs - 1) xs = [last xs]"
    using assms by (metis append_butlast_last_id append_eq_conv_conj length_butlast)
  ultimately show ?thesis by simp
qed

subsection \<open>The resolver\<close>

lemma validateModelConfig_None:
  "validateModelConfig url_ok config = None \<longleftrightarrow> \<not> invalid_config url_ok config"
  by (auto simp: validateModelConfig_def invalid_config_def split: option.splits)

lemma getModelConfig_Inr:
  "\<not> invalid_config url_ok (selectConfig sel d) \<Longrightarrow>
   getModelConfig url_ok sel d = Inr (selectConfig sel d)"
  using validateModelConfig_None [of url_ok "selectConfig sel d"]
  by (simp add: getModelConfig_def Let_def)

lemma getModelConfig_Inl:
  assumes "invalid_config url_ok (selectConfig sel d)"
  shows "\<exists>m f. (m, f) \<in> {(''Model name is required'', ''name''),
                        (''API key must be a string'', ''apiKey''),
                        (''Invalid API URL'', ''apiUrl'')} \<and>
           validateModelConfig url_ok (selectConfig sel d) = Some \<lparr>message = m, field = Some f\<rparr> \<and>
           getModelConfig url_ok sel d =
             Inl (ErrorObject PlainError ''Error''
                   (''Invalid model configuration: '' @ m @ '' ('' @ f @ '')''))"
proof -
  have "validateModelConfig url_ok (selectConfig sel d) \<noteq> None"
    using assms validateModelConfig_None by blast
  then obtain m f
    where v: "validateModelConfig url_ok (selectConfig sel d) = Some \<lparr>message = m, field = Some f\<rparr>"
      and mf: "(m, f) \<in> {(''Model name is required'', ''name''),
                         (''API key must be a string'', ''apiKey''),
                         (''Invalid API URL'', ''apiUrl'')}"
    by (auto simp: validateModelConfig_def split: if_splits)
  have "f \<noteq> []" using mf by auto
  then have "getModelConfig url_ok sel d =
             Inl (ErrorObject PlainError ''Error''
                   (''Invalid model configuration: '' @ m @ '' ('' @ f @ '')''))"
    using v by (simp add: getModelConfig_def Let_def)
  then show ?thesis using v mf by blast
qed

lemma getModelConfig_Inl_form:
  assumes "getModelConfig url_ok sel d = Inl e"
  shows "\<exists>m f. (m, f) \<in> {(''Model name is required'', ''name''),
                        (''API key must be a string'', ''apiKey''),
                        (''Invalid API URL'', ''apiUrl'')} \<and>
           e = ErrorObject PlainError ''Error''
                 (''Invalid model configuration: '' @ m @ '' ('' @ f @ '')'')"
proof (cases "invalid_config url_ok (selectConfig sel d)")
  case True
  then show ?thesis using getModelConfig_Inl [of url_ok sel d] assms by auto
next
  case False
  then show ?thesis using getModelConfig_Inr [of url_ok sel d] assms by simp
qed

text \<open>
  The handler's \<^verbatim>\<open>catch\<close> on the resolver's error: status 500 with the generic body.
\<close>

lemma resolver_error_response:
  assumes "(m, f) \<in> {(''Model name is required'', ''name''),
                     (''API key must be a string'', ''apiKey''),
                     (''Invalid API URL'', ''apiUrl'')}"
  shows "error_response
           (ErrorObject PlainError ''Error''
             (''Invalid model configuration: '' @ m @ '' ('' @ f @ '')'')) =
         Json 500 (ErrorBody ''Model proxy failed'')"
  using assms by (auto simp: startsWith_def)




subsection \<open>The handler's steps before the classification\<close>


text \<open>
  A throw of the constructor of the probe's client ends the request with the response of the
  handler's \<^verbatim>\<open>catch\<close>, before any backend is reached.
\<close>

lemma handler_without_probe_client:
  assumes "RequestSchema E body"
    and "new_OpenAI E (probe_apiKey E authHeader) ''https://api.openai.com/v1'' = Some error"
  shows "post_chat_completions E authHeader (Inr body) = (error_response error, [])"
  using assms
  by (simp add: post_chat_completions_def RequestSchema_parseAsync_def finish_def cleanup_def)

lemma handler_classifies:
  assumes "RequestSchema E body"
    and "new_OpenAI E (probe_apiKey E authHeader) ''https://api.openai.com/v1'' = None"
    and "classify E authHeader body = (cls, fx1)"
  shows "post_chat_completions E authHeader (Inr body) =
           finish fx1 (relay_stage E authHeader body cls)"
  using assms by (simp add: post_chat_completions_def RequestSchema_parseAsync_def)

subsection \<open>Traces\<close>

lemma shouldUseSlowModel_effects:
  "list_all is_probe_effect (snd (shouldUseSlowModel prompt client msgs))"
  by (auto simp: shouldUseSlowModel_def probe_def probe_try_def Let_def
      split: sum.splits probe_exit.splits prod.splits)

lemma classify_effects: "classify E authHeader body = (cls, fx1) \<Longrightarrow> list_all is_probe_effect fx1"
  using shouldUseSlowModel_effects unfolding classify_def by (metis snd_conv)

lemma probe_effects_forwarded: "list_all is_probe_effect fx \<Longrightarrow> forwarded fx = []"
  by (induction fx rule: forwarded.induct) simp_all

lemma probe_effects_errors: "list_all is_probe_effect fx \<Longrightarrow> errors_surfaced fx = []"
  by (induction fx rule: errors_surfaced.induct) simp_all

lemma probe_effects_releases: "list_all is_probe_effect fx \<Longrightarrow> filter releases_relay fx = []"
proof (induction fx)
  case Nil
  then show ?case by simp
next
  case (Cons x fx)
  then show ?case by (cases x) simp_all
qed

lemma probe_effects_open: "list_all is_probe_effect fx \<Longrightarrow> \<not> list_ex opens_relay fx"
proof (induction fx)
  case Nil
  then show ?case by simp
next
  case (Cons x fx)
  then show ?case by (cases x) simp_all
qed

lemma forwarded_append: "forwarded (fx @ gx) = forwarded fx @ forwarded gx"
  by (induction fx rule: forwarded.induct) simp_all

lemma errors_surfaced_append: "errors_surfaced (fx @ gx) = errors_surfaced fx @ errors_surfaced gx"
  by (induction fx rule: errors_surfaced.induct) simp_all

lemma forwarded_enqueues:
  "forwarded (map (\<lambda>(c, s'). Enqueue (sse_frame c)) pre) = map (\<lambda>(c, s'). sse_frame c) pre"
  by (induction pre) auto

lemma errors_enqueues: "errors_surfaced (map (\<lambda>(c, s'). Enqueue (sse_frame c)) pre) = []"
  by (induction pre) auto

lemma releases_enqueues: "filter releases_relay (map (\<lambda>(c, s'). Enqueue (sse_frame c)) pre) = []"
  by (induction pre) auto

subsection \<open>The relay loop and the last user message\<close>

lemma relay_loop_disconnect:
  assumes "list_all (\<lambda>(c, s'). connected s') pre" and "aborted s \<or> cancelled s"
  shows "relay_loop (pre @ (chunk, s) # rest) fin =
           (map (\<lambda>(c, s'). Enqueue (sse_frame c)) pre @ [RelayReturn],
            if aborted s then Returned s else Threw enqueue_TypeError s)"
  using assms by (induction pre) (auto simp: connected_def)

lemma start_disconnect:
  assumes "list_all (\<lambda>(c, s'). connected s') pre" and "aborted s \<or> cancelled s"
  shows "start (pre @ (chunk, s) # rest) fin =
           map (\<lambda>(c, s'). Enqueue (sse_frame c)) pre @ [RelayReturn]"
  using assms(2) relay_loop_disconnect [OF assms, of chunk rest fin]
  by (auto simp: start_def start_catch_def start_finally_def)

lemma find_skip: "\<forall>x\<in>set xs. \<not> P x \<Longrightarrow> find P (xs @ ys) = find P ys"
  by (induction xs) simp_all

lemma findLast_last_match:
  assumes "P m" and "list_all (\<lambda>x. \<not> P x) post"
  shows "findLast P (pre @ m # post) = Some m"
proof -
  have "\<forall>x\<in>set (rev post). \<not> P x"
    using assms(2) by (simp add: list_all_iff)
  then have "find P (rev post @ m # rev pre) = find P (m # rev pre)"
    by (rule find_skip)
  then show ?thesis using assms(1) by (simp add: findLast_def)
qed

lemma findLast_no_match:
  assumes "list_all (\<lambda>x. \<not> P x) xs"
  shows "findLast P xs = None"
  using assms by (simp add: findLast_def find_None_iff list_all_iff)

subsection \<open>The example inputs\<close>

lemma example_fast_classify:
  "classify example_env None (example_body [user_says ''Hi''] None streaming) =
     (\<lparr>useSlowModel = False, reason = ''check-failed''\<rparr>, [ProbeCreate (probe_params [user_says ''Hi''])])"
  by (simp add: classify_def example_body_def user_says_def example_env_def lastUserPrompt_def
      findLast_def shouldUseSlowModel_def keywords_list_def toLowerCase_def toLowerCaseChar_def
      startsWith_def probe_def probe_try_def)

lemma example_fast_resolve:
  "resolve example_env (example_body [user_says ''Hi''] None streaming)
     \<lparr>useSlowModel = False, reason = ''check-failed''\<rparr> =
   Inr \<lparr>name = ''m1'', apiKey = None, apiUrl = None\<rparr>"
  by (simp add: resolve_def example_body_def getModelConfig_def selectConfig_def
      validateModelConfig_def)

lemma example_validated:
  "RequestSchema example_env (example_body [user_says ''Hi''] None streaming)"
  by (simp add: RequestSchema_def example_body_def example_env_def user_says_def
      ChatMessageSchema_def)

lemma example_probe_client:
  "new_OpenAI example_env (probe_apiKey example_env None) ''https://api.openai.com/v1'' = None"
  by (simp add: example_env_def probe_apiKey_def bearer_def js_or_def)

lemma example_relay_client:
  "new_OpenAI example_env
     (relay_apiKey example_env None \<lparr>name = ''m1'', apiKey = None, apiUrl = None\<rparr>)
     (relay_baseURL \<lparr>name = ''m1'', apiKey = None, apiUrl = None\<rparr>) = None"
  by (simp add: example_env_def relay_apiKey_def relay_baseURL_def bearer_def js_or_def)

lemma example_bearer: "bearer (Some ''Bearer sk-1'') = Some (JString ''sk-1'')"
  by (simp add: bearer_def)

text \<open>
  Without a key in the header or in the environment the probe's client is not constructed:
  a valid request that brings its own key is answered with status 500, and no backend is
  reached.
\<close>

lemma keyless_request_fails:
  "RequestSchema keyless_env (own_key_body [user_says ''Hi'']) \<and>
   post_chat_completions keyless_env None (Inr (own_key_body [user_says ''Hi''])) =
     (Json 500 (ErrorBody ''Model proxy failed''), [])"
proof -
  have v: "RequestSchema keyless_env (own_key_body [user_says ''Hi''])"
    by (simp add: RequestSchema_def keyless_env_def example_env_def own_key_body_def user_says_def
        ChatMessageSchema_def ModelConfigSchema_def)
  have k: "new_OpenAI keyless_env (probe_apiKey keyless_env None) ''https://api.openai.com/v1'' =
      Some missing_key"
    by (simp add: keyless_env_def example_env_def probe_apiKey_def bearer_def js_or_def)
  have "error_response missing_key = Json 500 (ErrorBody ''Model proxy failed'')"
    by (simp add: missing_key_def startsWith_def)
  then show ?thesis
    using v handler_without_probe_client [OF v k] by simp
qed



section \<open>The claims\<close>

text \<open>
  C1. In streaming mode (the request is valid, both clients are constructed and the relay's
  stream is open), once the caller has disconnected mid-stream (its request is aborted, or
  it has cancelled the stream) while the chunks before were forwarded to a connected
  caller, the next backend chunk and all later ones are not forwarded, no error is raised on
  the caller's stream, and the relay's backend connection is released exactly once: the
  loop is left, which closes the backend stream, and the handler's cleanup adds no second
  release.
\<close>

theorem disconnect_mid_stream:
  assumes "RequestSchema E body"
    and "new_OpenAI E (probe_apiKey E authHeader) ''https://api.openai.com/v1'' = None"
    and "classify E authHeader body = (cls, fx1)"
    and "resolve E body cls = Inr modelConfig"
    and "new_OpenAI E (relay_apiKey E authHeader modelConfig) (relay_baseURL modelConfig) = None"
    and "stream body = Some True"
    and "relay_stream E (relay_params modelConfig authHeader body) =
           Inr (pre @ (chunk, s) # rest, fin)"
    and "list_all (\<lambda>(c, s'). connected s') pre"
    and "aborted s \<or> cancelled s"
  shows "post_chat_completions E authHeader (Inr body) =
           (EventStream,
            fx1 @ [RelayCreate (relay_params modelConfig authHeader body)] @
            map (\<lambda>(c, s'). Enqueue (sse_frame c)) pre @ [RelayReturn]) \<and>
         forwarded (snd (post_chat_completions E authHeader (Inr body))) =
           map (\<lambda>(c, s'). sse_frame c) pre \<and>
         errors_surfaced (snd (post_chat_completions E authHeader (Inr body))) = [] \<and>
         releases (snd (post_chat_completions E authHeader (Inr body))) = 1"
proof -
  have st: "start (pre @ (chunk, s) # rest) fin =
      map (\<lambda>(c, s'). Enqueue (sse_frame c)) pre @ [RelayReturn]"
    using assms(8,9) by (rule start_disconnect)
  have p: "post_chat_completions E authHeader (Inr body) =
           (EventStream,
            fx1 @ [RelayCreate (relay_params modelConfig authHeader body)] @
            map (\<lambda>(c, s'). Enqueue (sse_frame c)) pre @ [RelayReturn])"
    using assms(4-7) st
    by (simp add: handler_classifies [OF assms(1-3)] relay_stage_def finish_def cleanup_def Let_def)
  have pe: "list_all is_probe_effect fx1"
    using assms(3) by (rule classify_effects)
  have f: "forwarded (snd (post_chat_completions E authHeader (Inr body))) =
      map (\<lambda>(c, s'). sse_frame c) pre"
    by (simp add: p forwarded_append probe_effects_forwarded [OF pe] forwarded_enqueues)
  have e: "errors_surfaced (snd (post_chat_completions E authHeader (Inr body))) = []"
    by (simp add: p errors_surfaced_append probe_effects_errors [OF pe] errors_enqueues)
  have r: "releases (snd (post_chat_completions E authHeader (Inr body))) = 1"
    by (simp add: p releases_def probe_effects_releases [OF pe] releases_enqueues)
  show ?thesis using p f e r by blast
qed

theorem disconnect_mid_stream_witness:
  "snd (post_chat_completions example_env None
          (Inr (example_body [user_says ''Hi''] None (Some True)))) =
     [ProbeCreate (probe_params [user_says ''Hi'']),
      RelayCreate (relay_params \<lparr>name = ''m1'', apiKey = None, apiUrl = None\<rparr> None
        (example_body [user_says ''Hi''] None (Some True))),
      Enqueue (sse_frame ''{1}''),
      RelayReturn] \<and>
   forwarded (snd (post_chat_completions example_env None
          (Inr (example_body [user_says ''Hi''] None (Some True))))) = [sse_frame ''{1}''] \<and>
   releases (snd (post_chat_completions example_env None
          (Inr (example_body [user_says ''Hi''] None (Some True))))) = 1"
proof -
  have s: "stream (example_body [user_says ''Hi''] None (Some True)) = Some True"
    by (simp add: example_body_def)
  have b: "relay_stream example_env
        (relay_params \<lparr>name = ''m1'', apiKey = None, apiUrl = None\<rparr> None
          (example_body [user_says ''Hi''] None (Some True))) =
      Inr ([(''{1}'', \<lparr>aborted = False, cancelled = False\<rparr>)] @
           (''{2}'', \<lparr>aborted = True, cancelled = False\<rparr>) #
           [(''{3}'', \<lparr>aborted = True, cancelled = False\<rparr>)],
           (Done, \<lparr>aborted = True, cancelled = False\<rparr>))"
    by (simp add: example_env_def)
  have l: "list_all (\<lambda>(c, s'). connected s') [(''{1}'', \<lparr>aborted = False, cancelled = False\<rparr>)]"
    by (simp add: connected_def)
  have d: "aborted \<lparr>aborted = True, cancelled = False\<rparr> \<or>
           cancelled \<lparr>aborted = True, cancelled = False\<rparr>"
    by simp
  show ?thesis
    using disconnect_mid_stream [OF example_validated example_probe_client example_fast_classify
        example_fast_resolve example_relay_client s b l d]
    by (simp add: releases_def)
qed

text \<open>
  C2. When the heuristics are silent and the probe's request returns a stream, the
  classifier looks at the first non-empty text fragment only: whatever comes after it, the
  result is slow with reason \<open>model-detected\<close> if that fragment starts with \<open>==\<close> and fast
  with reason \<open>model-simple\<close> otherwise; a stream that ends without a non-empty fragment
  gives fast with reason \<open>model-simple\<close>.
\<close>

theorem probe_first_fragment:
  assumes "heuristics_silent prompt"
    and "client (probe_params msgs) = Inr (chunks, fin)"
  shows "(chunks = pre @ Some fragment # rest \<and> list_all empty_piece pre \<and> fragment \<noteq> [] \<longrightarrow>
            fst (shouldUseSlowModel prompt client msgs) =
              (if startsWith fragment ''==''
               then \<lparr>useSlowModel = True, reason = ''model-detected''\<rparr>
               else \<lparr>useSlowModel = False, reason = ''model-simple''\<rparr>)) \<and>
         (list_all empty_piece chunks \<and> fin = Done \<longrightarrow>
            fst (shouldUseSlowModel prompt client msgs) =
              \<lparr>useSlowModel = False, reason = ''model-simple''\<rparr>)"
proof (intro conjI impI)
  assume a: "chunks = pre @ Some fragment # rest \<and> list_all empty_piece pre \<and> fragment \<noteq> []"
  then have "probe_loop chunks fin =
     (if startsWith fragment ''==''
      then Return \<lparr>useSlowModel = True, reason = ''model-detected''\<rparr> else Break)"
    using probe_loop_first [of pre fragment rest fin] by simp
  then show "fst (shouldUseSlowModel prompt client msgs) =
              (if startsWith fragment ''==''
               then \<lparr>useSlowModel = True, reason = ''model-detected''\<rparr>
               else \<lparr>useSlowModel = False, reason = ''model-simple''\<rparr>)"
    using assms by (simp add: shouldUseSlowModel_probe probe_def probe_try_def)
next
  assume "list_all empty_piece chunks \<and> fin = Done"
  then have "probe_loop chunks fin = Exhausted"
    using probe_loop_empty [of chunks fin] by simp
  then show "fst (shouldUseSlowModel prompt client msgs) =
      \<lparr>useSlowModel = False, reason = ''model-simple''\<rparr>"
    using assms by (simp add: shouldUseSlowModel_probe probe_def probe_try_def)
qed

theorem probe_first_fragment_witness:
  "heuristics_silent (Str ''Hi'') \<and>
   fst (shouldUseSlowModel (Str ''Hi'') (\<lambda>p. Inr marked_stream) []) =
     \<lparr>useSlowModel = True, reason = ''model-detected''\<rparr> \<and>
   fst (shouldUseSlowModel (Str ''Hi'') (\<lambda>p. Inr silent_stream) []) =
     \<lparr>useSlowModel = False, reason = ''model-simple''\<rparr>"
  using heuristics_silent_Hi
    probe_first_fragment [where prompt = "Str ''Hi''" and client = "\<lambda>p. Inr marked_stream"
      and msgs = "[]" and chunks = "[None, Some [], Some ''==Sure'', Some ''more'']"
      and fin = "Raises NotAnError" and pre = "[None, Some []]" and fragment = "''==Sure''"
      and rest = "[Some ''more'']"]
    probe_first_fragment [where prompt = "Str ''Hi''" and client = "\<lambda>p. Inr silent_stream"
      and msgs = "[]" and chunks = "[None, Some []]" and fin = Done]
  by (simp add: marked_stream_def silent_stream_def empty_piece_def startsWith_def)

text \<open>
  C3. When the heuristics are silent and the probe fails, at the creation of its request or
  while its stream is read, the classifier returns fast with reason \<open>check-failed\<close> and the
  error goes no further: the handler, which has validated the request and constructed the
  probe's client before the probe, goes on to resolve the fast model and to relay, as after
  any fast classification, whatever the error was.
\<close>

theorem probe_failure_check_failed:
  assumes "heuristics_silent prompt"
    and "client (probe_params msgs) = Inl e \<or>
           (\<exists>chunks. client (probe_params msgs) = Inr (chunks, Raises e) \<and>
              list_all empty_piece chunks)"
  shows "shouldUseSlowModel prompt client msgs =
           (\<lparr>useSlowModel = False, reason = ''check-failed''\<rparr>, [ProbeCreate (probe_params msgs)]) \<and>
         (RequestSchema E body \<and>
          new_OpenAI E (probe_apiKey E authHeader) ''https://api.openai.com/v1'' = None \<and>
          prompt = lastUserPrompt (messages body) \<and> client = probe_backend E authHeader \<and>
          msgs = messages body \<longrightarrow>
            post_chat_completions E authHeader (Inr body) =
              finish [ProbeCreate (probe_params msgs)]
                (relay_stage E authHeader body \<lparr>useSlowModel = False, reason = ''check-failed''\<rparr>))"
proof -
  have s: "shouldUseSlowModel prompt client msgs =
           (\<lparr>useSlowModel = False, reason = ''check-failed''\<rparr>, [ProbeCreate (probe_params msgs)])"
    using assms shouldUseSlowModel_probe probe_failure by simp
  have "post_chat_completions E authHeader (Inr body) =
      finish [ProbeCreate (probe_params msgs)]
        (relay_stage E authHeader body \<lparr>useSlowModel = False, reason = ''check-failed''\<rparr>)"
    if v: "RequestSchema E body"
      and k: "new_OpenAI E (probe_apiKey E authHeader) ''https://api.openai.com/v1'' = None"
      and i: "prompt = lastUserPrompt (messages body)" "client = probe_backend E authHeader"
        "msgs = messages body"
  proof -
    have "classify E authHeader body =
        (\<lparr>useSlowModel = False, reason = ''check-failed''\<rparr>, [ProbeCreate (probe_params msgs)])"
      using s i by (simp add: classify_def)
    then show ?thesis
      using v k by (rule handler_classifies [rotated 2])
  qed
  then show ?thesis
    using s by blast
qed

theorem probe_failure_check_failed_witness:
  "heuristics_silent (Str ''Hi'') \<and>
   RequestSchema example_env (example_body [user_says ''Hi''] None None) \<and>
   new_OpenAI example_env (probe_apiKey example_env None) ''https://api.openai.com/v1'' = None \<and>
   probe_backend example_env None (probe_params [user_says ''Hi'']) =
     Inl (ErrorObject OtherError ''Error'' ''Connection error.'') \<and>
   post_chat_completions example_env None (Inr (example_body [user_says ''Hi''] None None)) =
     (Json 200 (CompletionBody ''{}''),
      [ProbeCreate (probe_params [user_says ''Hi'']),
       RelayCreate (relay_params \<lparr>name = ''m1'', apiKey = None, apiUrl = None\<rparr> None
         (example_body [user_says ''Hi''] None None))]) \<and>
   shouldUseSlowModel (Str ''Hi'') (\<lambda>p. Inr broken_stream) [] =
     (\<lparr>useSlowModel = False, reason = ''check-failed''\<rparr>, [ProbeCreate (probe_params [])])"
proof -
  have b: "probe_backend example_env None (probe_params [user_says ''Hi'']) =
     Inl (ErrorObject OtherError ''Error'' ''Connection error.'')"
    by (simp add: example_env_def)
  have l: "Str ''Hi'' = lastUserPrompt (messages (example_body [user_says ''Hi''] None None))"
    by (simp add: example_body_def user_says_def lastUserPrompt_def findLast_def)
  have m: "[user_says ''Hi''] = messages (example_body [user_says ''Hi''] None None)"
    by (simp add: example_body_def)
  have "post_chat_completions example_env None (Inr (example_body [user_says ''Hi''] None None)) =
      finish [ProbeCreate (probe_params [user_says ''Hi''])]
        (relay_stage example_env None (example_body [user_says ''Hi''] None None)
           \<lparr>useSlowModel = False, reason = ''check-failed''\<rparr>)"
    using probe_failure_check_failed [where prompt = "Str ''Hi''"
        and client = "probe_backend example_env None" and msgs = "[user_says ''Hi'']"
        and e = "ErrorObject OtherError ''Error'' ''Connection error.''"
        and body = "example_body [user_says ''Hi''] None None"
        and E = example_env and authHeader = None] heuristics_silent_Hi b l m
      example_validated [of None] example_probe_client
    by simp
  moreover have "relay_stage example_env None (example_body [user_says ''Hi''] None None)
           \<lparr>useSlowModel = False, reason = ''check-failed''\<rparr> =
      (Inr (Json 200 (CompletionBody ''{}'')),
       [RelayCreate (relay_params \<lparr>name = ''m1'', apiKey = None, apiUrl = None\<rparr> None
         (example_body [user_says ''Hi''] None None))], [])"
    by (simp add: relay_stage_def resolve_def example_body_def getModelConfig_def selectConfig_def
        validateModelConfig_def example_env_def relay_apiKey_def relay_baseURL_def bearer_def
        js_or_def Let_def)
  moreover have "shouldUseSlowModel (Str ''Hi'') (\<lambda>p. Inr broken_stream) [] =
     (\<lparr>useSlowModel = False, reason = ''check-failed''\<rparr>, [ProbeCreate (probe_params [])])"
    using probe_failure_check_failed [where prompt = "Str ''Hi''"
        and client = "\<lambda>p. Inr broken_stream" and msgs = "[]"
        and e = "ErrorObject OtherError ''Error'' ''terminated''"] heuristics_silent_Hi
    by (simp add: broken_stream_def empty_piece_def)
  ultimately show ?thesis
    using heuristics_silent_Hi b example_validated [of None] example_probe_client
    by (simp add: finish_def cleanup_def)
qed

text \<open>
  C4, as amended. For a conversation of \<open>n > 0\<close> messages, the probe request's list has
  \<open>n + 1\<close> entries: the copies of the messages reduced to role and content (name and
  function or tool call payloads dropped), in their order, with the fixed system instruction
  at position \<open>n - 1\<close>, before the copy of the last message, which stays last. Where no
  message carries more than role and content, the entries are the messages themselves.
\<close>

theorem probe_messages_amended:
  assumes "msgs \<noteq> []"
  shows "length (p_messages (probe_params msgs)) = length msgs + 1 \<and>
         p_messages (probe_params msgs) =
           map role_and_content (butlast msgs) @
           [COMPLEXITY_CHECK_PROMPT, role_and_content (last msgs)] \<and>
         p_messages (probe_params msgs) ! (length msgs - 1) = COMPLEXITY_CHECK_PROMPT \<and>
         last (p_messages (probe_params msgs)) = role_and_content (last msgs) \<and>
         (list_all (\<lambda>m. role_and_content m = m) msgs \<longrightarrow>
            p_messages (probe_params msgs) = butlast msgs @ [COMPLEXITY_CHECK_PROMPT, last msgs])"
proof -
  have e: "p_messages (probe_params msgs) =
           map role_and_content (butlast msgs) @
           [COMPLEXITY_CHECK_PROMPT, role_and_content (last msgs)]"
    using assms splice_insert_before_last [of "map role_and_content msgs" COMPLEXITY_CHECK_PROMPT]
    by (simp add: probe_params_def messagesWithCheck_def Let_def map_butlast last_map)
  have l: "length (p_messages (probe_params msgs)) = length msgs + 1"
    using assms by (simp add: e)
  have i: "p_messages (probe_params msgs) ! (length msgs - 1) = COMPLEXITY_CHECK_PROMPT"
    unfolding e using nth_append_length [of "map role_and_content (butlast msgs)"] by simp
  have t: "last (p_messages (probe_params msgs)) = role_and_content (last msgs)"
    by (simp add: e)
  have p: "p_messages (probe_params msgs) = butlast msgs @ [COMPLEXITY_CHECK_PROMPT, last msgs]"
    if "list_all (\<lambda>m. role_and_content m = m) msgs"
  proof -
    have "\<forall>m\<in>set msgs. role_and_content m = m"
      using that by (simp add: list_all_iff)
    moreover have "set (butlast msgs) \<subseteq> set msgs" "last msgs \<in> set msgs"
      using assms by (auto dest: in_set_butlastD)
    ultimately have "map role_and_content (butlast msgs) = butlast msgs"
        "role_and_content (last msgs) = last msgs"
      by (auto intro: map_idI)
    then show ?thesis by (simp add: e)
  qed
  show ?thesis using e l i t p by blast
qed

theorem probe_messages_amended_witness:
  "p_messages (probe_params [user_says ''first'', example_message]) =
     [user_says ''first'', COMPLEXITY_CHECK_PROMPT, user_says ''Hi''] \<and>
   list_all (\<lambda>m. role_and_content m = m) [user_says ''first'', user_says ''Hi''] \<and>
   p_messages (probe_params [user_says ''first'', user_says ''Hi'']) =
     [user_says ''first'', COMPLEXITY_CHECK_PROMPT, user_says ''Hi'']"
  using probe_messages_amended [of "[user_says ''first'', example_message]"]
    probe_messages_amended [of "[user_says ''first'', user_says ''Hi'']"]
  by (simp add: example_message_def user_says_def role_and_content_def)

text \<open>
  C4 as stated fails: the last entry of the probe's list is not the original last message
  when that message has a name.
\<close>

theorem probe_messages_counterexample:
  "last (p_messages (probe_params [user_says ''first'', example_message])) \<noteq> example_message"
  by (simp add: probe_params_def messagesWithCheck_def splice_insert_def role_and_content_def
      example_message_def user_says_def Let_def)

text \<open>
  C5. A text of more than 1000 characters is classified slow with reason \<open>length\<close>,
  whatever it contains, and no request goes to the probe backend.
\<close>

theorem length_rule:
  assumes "length (extractTextFromContent prompt) > 1000"
  shows "shouldUseSlowModel prompt client msgs = (\<lparr>useSlowModel = True, reason = ''length''\<rparr>, [])"
  using assms by (simp add: shouldUseSlowModel_def Let_def)

theorem length_rule_witness:
  "length (extractTextFromContent (Str (''legal'' @ replicate 996 (CHR ''x'')))) > 1000 \<and>
   shouldUseSlowModel (Str (''legal'' @ replicate 996 (CHR ''x''))) (\<lambda>p. Inr marked_stream) [] =
     (\<lparr>useSlowModel = True, reason = ''length''\<rparr>, [])"
  using length_rule [of "Str (''legal'' @ replicate 996 (CHR ''x''))" "\<lambda>p. Inr marked_stream" "[]"]
  by simp

text \<open>
  C6. A text of at most 1000 characters in which one of the terms legal, medical, analysis,
  philosophy occurs, in any letter case, is classified slow with reason \<open>keywords\<close>, and no
  request goes to the probe backend.
\<close>

theorem keyword_rule:
  assumes "length (extractTextFromContent prompt) \<le> 1000"
    and "keyword \<in> set keywords_list"
    and "extractTextFromContent prompt = pre @ w @ post"
    and "in_any_letter_case w keyword"
  shows "shouldUseSlowModel prompt client msgs = (\<lparr>useSlowModel = True, reason = ''keywords''\<rparr>, [])"
proof -
  have "toLowerCase w = keyword"
    using assms(2,4) toLowerCase_any_case keywords_small unfolding in_any_letter_case_def
    by blast
  then have "toLowerCase (extractTextFromContent prompt) =
      toLowerCase pre @ keyword @ toLowerCase post"
    using assms(3) by (simp add: toLowerCase_def)
  then have "str_includes (toLowerCase (extractTextFromContent prompt)) keyword"
    by (simp add: str_includes_append)
  then have "list_ex (\<lambda>keyword. str_includes (toLowerCase (extractTextFromContent prompt)) keyword)
      keywords_list"
    using assms(2) unfolding list_ex_iff by blast
  then show ?thesis
    using assms(1) by (simp add: shouldUseSlowModel_def Let_def)
qed

theorem keyword_rule_witness:
  "length (extractTextFromContent (Str ''Explain the LeGaL implications of X'')) \<le> 1000 \<and>
   ''legal'' \<in> set keywords_list \<and>
   in_any_letter_case ''LeGaL'' ''legal'' \<and>
   shouldUseSlowModel (Str ''Explain the LeGaL implications of X'') (\<lambda>p. Inr marked_stream) [] =
     (\<lparr>useSlowModel = True, reason = ''keywords''\<rparr>, [])"
  using keyword_rule [of "Str ''Explain the LeGaL implications of X''" "''legal''"
      "''Explain the ''" "''LeGaL''" "'' implications of X''" "\<lambda>p. Inr marked_stream" "[]"]
  by (simp add: keywords_list_def in_any_letter_case_def toUpperCaseLetter_def char_eq_char_of)

text \<open>
  C7. The extractor returns a string content unchanged; on a sequence of parts it returns
  the text fields of exactly the text parts, in order, with one space between consecutive
  texts; a sequence without text parts (any sequence with its text parts removed) gives the
  empty string. The function is total: it has a value on every content.
\<close>

theorem extractTextFromContent_spec:
  "extractTextFromContent (Str s) = s \<and>
   extractTextFromContent (Parts ps) = spaced (text_fields ps) \<and>
   extractTextFromContent (Parts (filter (\<lambda>part. part_type part \<noteq> ''text'') ps)) = []"
proof -
  have a: "extractTextFromContent (Parts qs) = spaced (text_fields qs)" for qs
    by (simp add: filter_map_text_fields join_space_spaced)
  show ?thesis
    using a [of ps] a [of "filter (\<lambda>part. part_type part \<noteq> ''text'') ps"]
    by (simp add: text_fields_no_text)
qed

theorem extractTextFromContent_spec_witness:
  "extractTextFromContent (Str ''hi'') = ''hi'' \<and>
   extractTextFromContent
     (Parts [TextContent ''see'', ImageContent ''http://x/i.png'', TextContent ''this'']) =
     ''see this'' \<and>
   extractTextFromContent (Parts [ImageContent ''http://x/i.png'']) = []"
  using extractTextFromContent_spec
    [of "''hi''" "[TextContent ''see'', ImageContent ''http://x/i.png'', TextContent ''this'']"]
    extractTextFromContent_spec [of "''hi''" "[ImageContent ''http://x/i.png'']"]
  by simp

text \<open>
  C8, as amended. The resolver takes \<open>{name: default}\<close> when the selector is absent or the
  empty string, \<open>{name: s}\<close> when it is a non-empty string \<open>s\<close>, and the structured value
  itself otherwise. It fails, with an error whose message starts with
  \<open>Invalid model configuration:\<close>, exactly when the configuration taken has an empty name, a
  credential that is truthy and not a string, or a non-empty endpoint that does not parse as
  a URL; otherwise it returns the configuration taken.
\<close>

theorem getModelConfig_amended:
  "selectConfig None d = \<lparr>name = d, apiKey = None, apiUrl = None\<rparr> \<and>
   selectConfig (Some (ModelName [])) d = \<lparr>name = d, apiKey = None, apiUrl = None\<rparr> \<and>
   (s \<noteq> [] \<longrightarrow>
      selectConfig (Some (ModelName s)) d = \<lparr>name = s, apiKey = None, apiUrl = None\<rparr>) \<and>
   selectConfig (Some (ModelObject c)) d = c \<and>
   ((\<exists>e. getModelConfig url_ok sel d = Inl e) \<longleftrightarrow> invalid_config url_ok (selectConfig sel d)) \<and>
   (\<not> invalid_config url_ok (selectConfig sel d) \<longrightarrow>
      getModelConfig url_ok sel d = Inr (selectConfig sel d)) \<and>
   (\<forall>e. getModelConfig url_ok sel d = Inl e \<longrightarrow>
      (\<exists>m. e = ErrorObject PlainError ''Error'' (''Invalid model configuration: '' @ m)))"
proof -
  have a: "(\<exists>e. getModelConfig url_ok sel d = Inl e) \<longleftrightarrow>
      invalid_config url_ok (selectConfig sel d)"
  proof (cases "invalid_config url_ok (selectConfig sel d)")
    case True
    then show ?thesis using getModelConfig_Inl [of url_ok sel d] by blast
  next
    case False
    then show ?thesis using getModelConfig_Inr [of url_ok sel d] by simp
  qed
  have b: "\<exists>m. e = ErrorObject PlainError ''Error'' (''Invalid model configuration: '' @ m)"
    if "getModelConfig url_ok sel d = Inl e" for e
    using getModelConfig_Inl_form [OF that] by auto
  show ?thesis
    using a b getModelConfig_Inr [of url_ok sel d] by (simp add: selectConfig_def)
qed

theorem getModelConfig_amended_witness:
  "getModelConfig (url_parses example_env) (Some (ModelName ''m1'')) ''gpt-4o'' =
     Inr \<lparr>name = ''m1'', apiKey = None, apiUrl = None\<rparr> \<and>
   invalid_config (url_parses example_env)
     (selectConfig
        (Some (ModelObject \<lparr>name = ''m2'', apiKey = None, apiUrl = Some ''not a url''\<rparr>))
        ''gpt-4o'') \<and>
   (\<exists>e. getModelConfig (url_parses example_env)
     (Some (ModelObject \<lparr>name = ''m2'', apiKey = None, apiUrl = Some ''not a url''\<rparr>))
     ''gpt-4o'' = Inl e)"
  using getModelConfig_amended [where d = "''gpt-4o''" and s = "''m1''"
      and c = "\<lparr>name = ''m2'', apiKey = None, apiUrl = Some ''not a url''\<rparr>"
      and url_ok = "url_parses example_env" and sel = "Some (ModelName ''m1'')"]
    getModelConfig_amended [where d = "''gpt-4o''" and s = "''m1''"
      and c = "\<lparr>name = ''m2'', apiKey = None, apiUrl = Some ''not a url''\<rparr>"
      and url_ok = "url_parses example_env"
      and sel = "Some (ModelObject \<lparr>name = ''m2'', apiKey = None, apiUrl = Some ''not a url''\<rparr>)"]
  by (simp add: invalid_config_def selectConfig_def example_env_def)

text \<open>
  C8 as stated fails: for the empty string as selector the resolver returns the default
  name, where the claim has it wrap the string and then fail on the empty name; and an
  empty endpoint, which parses as no URL, is accepted.
\<close>

theorem getModelConfig_counterexample:
  "getModelConfig (\<lambda>u. False) (Some (ModelName [])) ''gpt-4o'' =
     Inr \<lparr>name = ''gpt-4o'', apiKey = None, apiUrl = None\<rparr> \<and>
   getModelConfig (\<lambda>u. False)
     (Some (ModelObject \<lparr>name = ''m'', apiKey = None, apiUrl = Some []\<rparr>)) ''gpt-4o'' =
     Inr \<lparr>name = ''m'', apiKey = None, apiUrl = Some []\<rparr>"
  by (simp add: getModelConfig_def selectConfig_def validateModelConfig_def)




text \<open>
  C10. The handler classifies the content of the last message whose role is user, whatever
  messages of other roles follow it. When no message has the role user, it classifies the
  empty string: the extracted text is empty, neither heuristic rule fires, and the result
  is the probe's.
\<close>

theorem classified_text:
  "(messages body = pre @ m # post \<and> role m = User \<and> list_all (\<lambda>x. role x \<noteq> User) post \<longrightarrow>
      lastUserPrompt (messages body) = content m \<and>
      classify E authHeader body =
        shouldUseSlowModel (content m) (probe_backend E authHeader) (messages body)) \<and>
   (list_all (\<lambda>x. role x \<noteq> User) (messages body) \<longrightarrow>
      extractTextFromContent (lastUserPrompt (messages body)) = [] \<and>
      heuristics_silent (lastUserPrompt (messages body)) \<and>
      classify E authHeader body = probe (probe_backend E authHeader) (messages body))"
proof (intro conjI impI)
  assume a: "messages body = pre @ m # post \<and> role m = User \<and>
    list_all (\<lambda>x. role x \<noteq> User) post"
  then have "findLast (\<lambda>x. role x = User) (messages body) = Some m"
    using findLast_last_match [of "\<lambda>x. role x = User" m post pre] by simp
  then show l: "lastUserPrompt (messages body) = content m"
    by (simp add: lastUserPrompt_def)
  show "classify E authHeader body =
        shouldUseSlowModel (content m) (probe_backend E authHeader) (messages body)"
    by (simp add: classify_def l)
next
  assume a: "list_all (\<lambda>x. role x \<noteq> User) (messages body)"
  then have "findLast (\<lambda>x. role x = User) (messages body) = None"
    using findLast_no_match [of "\<lambda>x. role x = User" "messages body"] by simp
  then have l: "lastUserPrompt (messages body) = Str []"
    by (simp add: lastUserPrompt_def)
  show "extractTextFromContent (lastUserPrompt (messages body)) = []"
    by (simp add: l)
  show "heuristics_silent (lastUserPrompt (messages body))"
    by (simp add: l heuristics_silent_empty)
  show "classify E authHeader body = probe (probe_backend E authHeader) (messages body)"
    by (simp add: classify_def l shouldUseSlowModel_probe heuristics_silent_empty)
qed

theorem classified_text_witness:
  "lastUserPrompt
     [user_says ''first'', user_says ''a legal question'', assistant_says ''an answer''] =
     Str ''a legal question'' \<and>
   fst (classify example_env None
     (example_body
        [user_says ''first'', user_says ''a legal question'', assistant_says ''an answer'']
        None None)) =
     \<lparr>useSlowModel = True, reason = ''keywords''\<rparr> \<and>
   list_all (\<lambda>x. role x \<noteq> User) [assistant_says ''a legal question''] \<and>
   fst (classify example_env None (example_body [assistant_says ''a legal question''] None None)) =
     \<lparr>useSlowModel = False, reason = ''check-failed''\<rparr>"
  using classified_text [of
      "example_body
         [user_says ''first'', user_says ''a legal question'', assistant_says ''an answer'']
         None None"
      "[user_says ''first'']" "user_says ''a legal question''" "[assistant_says ''an answer'']"
      example_env None]
    classified_text [of "example_body [assistant_says ''a legal question''] None None"
      "[]" "user_says ''a legal question''" "[]" example_env None]
  by (simp add: example_body_def user_says_def assistant_says_def example_env_def
      shouldUseSlowModel_def keywords_list_def toLowerCase_def toLowerCaseChar_def startsWith_def
      probe_def probe_try_def)

end
